theory Spec2Isabelle
  imports Complex_Main
begin

section \<open>Python values and exceptions\<close>

text \<open>
  The exceptions the handlers of \<^verbatim>\<open>app.py\<close> can raise. A raise is the \<open>Inl\<close> branch of
  a sum; \<open>DatabaseError\<close> stands for whatever the persistence layer raises on commit.
\<close>

datatype py_error =
  KeyError | TypeError | ValueError | OverflowError | AttributeError | IndexError
  | DatabaseError

text \<open>
  A Python float as far as the handlers can tell floats apart: a finite value (kept as the
  exact rational it denotes), the two infinities and NaN.
\<close>

datatype pyfloat = Finite rat | PosInf | NegInf | NaN

text \<open>
  The objects \<^verbatim>\<open>request.get_json()\<close> returns: what \<^verbatim>\<open>json.loads\<close> builds. The decoder
  turns a number literal that overflows a double (\<^verbatim>\<open>1e999\<close>) and the literal
  \<^verbatim>\<open>Infinity\<close> into the float infinity.
\<close>

datatype json =
  JNone | JBool bool | JInt int | JFloat pyfloat | JStr string
  | JList "json list" | JDict "(string \<times> json) list"

definition bind_err :: "'e + 'a \<Rightarrow> ('a \<Rightarrow> 'e + 'b) \<Rightarrow> 'e + 'b" where
  "bind_err m f = (case m of Inl e \<Rightarrow> Inl e | Inr a \<Rightarrow> f a)"

text \<open>\<^verbatim>\<open>data.get(key, default)\<close>: only a dict has the method.\<close>

fun py_get :: "json \<Rightarrow> string \<Rightarrow> json \<Rightarrow> py_error + json" where
  "py_get (JDict kvs) k dflt = Inr (case map_of kvs k of None \<Rightarrow> dflt | Some v \<Rightarrow> v)"
| "py_get _ k dflt = Inl AttributeError"

text \<open>\<^verbatim>\<open>int(x)\<close> on a float truncates towards zero.\<close>

definition py_trunc :: "rat \<Rightarrow> int" where
  "py_trunc x = (if 0 \<le> x then \<lfloor>x\<rfloor> else \<lceil>x\<rceil>)"

text \<open>
  \<^verbatim>\<open>int(x)\<close>. The conversion of a string is Python's own and is a parameter \<open>conv\<close>
  (\<open>None\<close> where Python raises \<^verbatim>\<open>ValueError\<close>).
\<close>

fun py_int :: "(string \<Rightarrow> int option) \<Rightarrow> json \<Rightarrow> py_error + int" where
  "py_int conv JNone = Inl TypeError"
| "py_int conv (JBool b) = Inr (if b then 1 else 0)"
| "py_int conv (JInt n) = Inr n"
| "py_int conv (JFloat (Finite x)) = Inr (py_trunc x)"
| "py_int conv (JFloat PosInf) = Inl OverflowError"
| "py_int conv (JFloat NegInf) = Inl OverflowError"
| "py_int conv (JFloat NaN) = Inl ValueError"
| "py_int conv (JStr s) = (case conv s of None \<Rightarrow> Inl ValueError | Some n \<Rightarrow> Inr n)"
| "py_int conv (JList xs) = Inl TypeError"
| "py_int conv (JDict kvs) = Inl TypeError"

text \<open>\<^verbatim>\<open>str(n)\<close> for an integer, as the f-strings of \<^verbatim>\<open>generate_question\<close> use it.\<close>

definition digit_char :: "nat \<Rightarrow> char" where
  "digit_char n = ''0123456789'' ! n"

function str_nat :: "nat \<Rightarrow> string" where
  "str_nat n = (if n < 10 then [digit_char n] else str_nat (n div 10) @ [digit_char (n mod 10)])"
  by pat_completeness auto
termination
  by (relation "measure (\<lambda>n. n)") auto

declare str_nat.simps [simp del]

definition str_int :: "int \<Rightarrow> string" where
  "str_int i = (if i < 0 then CHR ''-'' # str_nat (nat (- i)) else str_nat (nat i))"

section \<open>The random module\<close>

text \<open>
  The random source of one call of \<^verbatim>\<open>generate_question\<close>: \<open>rng k\<close> is the raw value
  behind the \<open>k\<close>-th draw. Every value of the requested range is the image of some raw
  value, and nothing else is.
\<close>

type_synonym rng = "nat \<Rightarrow> nat"

definition rng_of :: "nat list \<Rightarrow> rng" where
  "rng_of xs = (\<lambda>k. if k < length xs then xs ! k else 0)"

definition choice :: "'a list \<Rightarrow> nat \<Rightarrow> py_error + 'a" where
  "choice xs r = (if xs = [] then Inl IndexError else Inr (xs ! (r mod length xs)))"

definition randint :: "int \<Rightarrow> int \<Rightarrow> nat \<Rightarrow> py_error + int" where
  "randint a b r = (if b < a then Inl ValueError else Inr (a + int (r mod nat (b - a + 1))))"

section \<open>Question generator\<close>

record settings =
  max_number :: int
  operations :: "string list"
  st_time_limit :: int

definition DIFFICULTY_SETTINGS :: "(string \<times> settings) list" where
  "DIFFICULTY_SETTINGS =
    [(''easy'', \<lparr>max_number = 10, operations = [''+'', ''-''], st_time_limit = 30\<rparr>),
     (''medium'', \<lparr>max_number = 50, operations = [''+'', ''-'', ''*''], st_time_limit = 20\<rparr>),
     (''hard'', \<lparr>max_number = 100, operations = [''+'', ''-'', ''*'', ''/''], st_time_limit = 15\<rparr>)]"

text \<open>
  \<^verbatim>\<open>DIFFICULTY_SETTINGS[difficulty]\<close>: a list or a dict is unhashable, any other object
  that is not one of the three keys is a missing key.
\<close>

fun settings_for :: "json \<Rightarrow> py_error + settings" where
  "settings_for (JStr k) =
     (case map_of DIFFICULTY_SETTINGS k of None \<Rightarrow> Inl KeyError | Some st \<Rightarrow> Inr st)"
| "settings_for (JList xs) = Inl TypeError"
| "settings_for (JDict kvs) = Inl TypeError"
| "settings_for d = Inl KeyError"

text \<open>
  The local variables of \<^verbatim>\<open>generate_question\<close> when it reaches its \<^verbatim>\<open>return\<close>:
  the operation drawn, \<^verbatim>\<open>num1\<close> and \<^verbatim>\<open>num2\<close> (unassigned when no branch ran), the
  text and the answer.
\<close>

record locals =
  operation :: string
  operands :: "(int \<times> int) option"
  text_of :: string
  answer_of :: int

definition times_sign :: string where
  "times_sign = [CHR '' '', CHR 0xD7, CHR '' '']"

definition divide_sign :: string where
  "divide_sign = [CHR '' '', CHR 0xF7, CHR '' '']"

definition generate_locals :: "settings \<Rightarrow> rng \<Rightarrow> py_error + locals" where
  "generate_locals st rng =
    bind_err (choice (operations st) (rng 0)) (\<lambda>opn.
      if opn = ''+'' then
        bind_err (randint 1 (max_number st) (rng 1)) (\<lambda>n1.
        bind_err (randint 1 (max_number st) (rng 2)) (\<lambda>n2.
          Inr \<lparr>operation = opn, operands = Some (n1, n2),
               text_of = str_int n1 @ '' + '' @ str_int n2, answer_of = n1 + n2\<rparr>))
      else if opn = ''-'' then
        bind_err (randint 1 (max_number st) (rng 1)) (\<lambda>n1.
        bind_err (randint 1 n1 (rng 2)) (\<lambda>n2.
          Inr \<lparr>operation = opn, operands = Some (n1, n2),
               text_of = str_int n1 @ '' - '' @ str_int n2, answer_of = n1 - n2\<rparr>))
      else if opn = ''*'' then
        bind_err (randint 1 (min (max_number st div 5) 12) (rng 1)) (\<lambda>n1.
        bind_err (randint 1 (min (max_number st div 5) 12) (rng 2)) (\<lambda>n2.
          Inr \<lparr>operation = opn, operands = Some (n1, n2),
               text_of = str_int n1 @ times_sign @ str_int n2, answer_of = n1 * n2\<rparr>))
      else if opn = ''/'' then
        bind_err (randint 1 (min (max_number st div 5) 12) (rng 1)) (\<lambda>ans.
        bind_err (randint 2 (min (max_number st div 10) 10) (rng 2)) (\<lambda>n2.
          Inr \<lparr>operation = opn, operands = Some (ans * n2, n2),
               text_of = str_int (ans * n2) @ divide_sign @ str_int n2, answer_of = ans\<rparr>))
      else Inr \<lparr>operation = opn, operands = None, text_of = [], answer_of = 0\<rparr>)"

record question =
  question :: string
  answer :: int
  time_limit :: int

definition generate_question :: "json \<Rightarrow> rng \<Rightarrow> py_error + question" where
  "generate_question difficulty rng =
    bind_err (settings_for difficulty) (\<lambda>st.
    bind_err (generate_locals st rng) (\<lambda>l.
      Inr \<lparr>question = text_of l, answer = answer_of l, time_limit = st_time_limit st\<rparr>))"

section \<open>Session state\<close>

text \<open>
  A \<^verbatim>\<open>datetime\<close> is a count of microseconds; \<^verbatim>\<open>isoformat\<close> followed by
  \<^verbatim>\<open>fromisoformat\<close> gives the same instant back. \<^verbatim>\<open>total_seconds()\<close> and the
  arithmetic on it are kept exact (rationals stand for the floats of the source).
\<close>

type_synonym timestamp = int

definition total_seconds :: "timestamp \<Rightarrow> timestamp \<Rightarrow> rat" where
  "total_seconds later earlier = of_int (later - earlier) / 1000000"

text \<open>
  The Flask session: a dict whose keys are present once \<^verbatim>\<open>start_game\<close> has stored
  them. \<open>None\<close> is an absent key.
\<close>

record session =
  game_active :: "bool option"
  difficulty :: "json option"
  score :: "int option"
  total_questions :: "int option"
  correct_answers :: "int option"
  start_time :: "timestamp option"
  current_question :: "question option"
  question_start_time :: "timestamp option"

definition empty_session :: session where
  "empty_session = \<lparr>game_active = None, difficulty = None, score = None,
     total_questions = None, correct_answers = None, start_time = None,
     current_question = None, question_start_time = None\<rparr>"

text \<open>\<^verbatim>\<open>session[key]\<close>: a missing key raises.\<close>

definition getitem :: "'a option \<Rightarrow> py_error + 'a" where
  "getitem v = (case v of None \<Rightarrow> Inl KeyError | Some x \<Rightarrow> Inr x)"

definition add_total_questions :: "int \<Rightarrow> session \<Rightarrow> py_error + session" where
  "add_total_questions k s =
     bind_err (getitem (total_questions s)) (\<lambda>n. Inr (s\<lparr>total_questions := Some (n + k)\<rparr>))"

definition add_correct_answers :: "int \<Rightarrow> session \<Rightarrow> py_error + session" where
  "add_correct_answers k s =
     bind_err (getitem (correct_answers s)) (\<lambda>n. Inr (s\<lparr>correct_answers := Some (n + k)\<rparr>))"

definition add_score :: "int \<Rightarrow> session \<Rightarrow> py_error + session" where
  "add_score k s =
     bind_err (getitem (score s)) (\<lambda>n. Inr (s\<lparr>score := Some (n + k)\<rparr>))"

section \<open>Request handlers\<close>

record submit_result =
  is_correct :: bool
  correct_answer :: int
  r_score :: int
  next_question :: string
  r_time_limit :: int
  r_total_questions :: int
  r_correct_answers :: int

record final_stats =
  fs_score :: int
  fs_total_questions :: int
  fs_correct_answers :: int
  fs_accuracy :: rat
  fs_duration :: rat
  fs_difficulty :: json

text \<open>
  The JSON bodies the handlers return: \<open>Failure\<close> is
  \<^verbatim>\<open>{'success': False, 'error': msg}\<close>, the others carry \<^verbatim>\<open>'success': True\<close>.
\<close>

datatype response =
  Failure string
  | Started string int
  | Submitted submit_result
  | Ended final_stats


text \<open>
  A handler works on the session and leaves it changed, also when an exception escapes
  it: its result is the response or the exception, together with the session as it is at
  that point. \<open>attempt st m f\<close> is one statement that may raise: an exception of \<open>m\<close>
  ends the handler in the state \<open>st\<close> reached so far, a value goes on to \<open>f\<close>.
\<close>

definition attempt :: "'st \<Rightarrow> 'e + 'a \<Rightarrow> ('a \<Rightarrow> ('e + 'b) \<times> 'st) \<Rightarrow> ('e + 'b) \<times> 'st" where
  "attempt st m f = (case m of Inl e \<Rightarrow> (Inl e, st) | Inr a \<Rightarrow> f a)"

definition start_game ::
  "json \<Rightarrow> timestamp \<Rightarrow> timestamp \<Rightarrow> rng \<Rightarrow> session \<Rightarrow> (py_error + response) \<times> session" where
  "start_game data now1 now2 rng s =
    attempt s (py_get data ''difficulty'' (JStr ''easy'')) (\<lambda>d.
      let s1 = s\<lparr>game_active := Some True, difficulty := Some d, score := Some 0,
                 total_questions := Some 0, correct_answers := Some 0,
                 start_time := Some now1\<rparr>
      in attempt s1 (generate_question d rng) (\<lambda>question_data.
        let s2 = s1\<lparr>current_question := Some question_data,
                    question_start_time := Some now2\<rparr>
        in (Inr (Started (question question_data) (time_limit question_data)), s2)))"

text \<open>
  The \<^verbatim>\<open>try\<close> block of \<^verbatim>\<open>submit_answer\<close>: \<^verbatim>\<open>ValueError\<close> and \<^verbatim>\<open>TypeError\<close>
  give the sentinel \<^verbatim>\<open>None\<close>, any other exception of \<^verbatim>\<open>int\<close> escapes.
\<close>

definition parse_answer :: "(string \<Rightarrow> int option) \<Rightarrow> json \<Rightarrow> py_error + int option" where
  "parse_answer conv raw =
    (case py_int conv raw of
       Inr n \<Rightarrow> Inr (Some n)
     | Inl e \<Rightarrow> if e = ValueError \<or> e = TypeError then Inr None else Inl e)"

definition submit_answer ::
  "(string \<Rightarrow> int option) \<Rightarrow> json \<Rightarrow> timestamp \<Rightarrow> timestamp \<Rightarrow> rng \<Rightarrow> session
     \<Rightarrow> (py_error + response) \<times> session" where
  "submit_answer conv data now1 now2 rng s =
    (if game_active s \<noteq> Some True then (Inr (Failure ''Nenhum jogo ativo''), s)
     else
      attempt s (py_get data ''answer'' JNone) (\<lambda>raw.
        case current_question s of
          None \<Rightarrow> (Inr (Failure ''Nenhuma pergunta atual''), s)
        | Some cq \<Rightarrow>
          attempt s (parse_answer conv raw) (\<lambda>user_answer.
            let correct = answer cq;
                is_c = (user_answer = Some correct)
            in
            attempt s (add_total_questions 1 s) (\<lambda>s1.
            attempt s1 (if is_c then add_correct_answers 1 s1 else Inr s1) (\<lambda>s2.
            attempt s2 (if is_c then add_score 10 s2 else Inr s2) (\<lambda>s3.
            attempt s3 (getitem (question_start_time s3)) (\<lambda>question_start.
              let time_taken = total_seconds now1 question_start in
              attempt s3 (if is_c \<and> time_taken < of_int (time_limit cq) / 2
                          then add_score (max 1 (py_trunc (10 - time_taken))) s3
                          else Inr s3) (\<lambda>s4.
              attempt s4 (getitem (difficulty s4)) (\<lambda>d.
              attempt s4 (generate_question d rng) (\<lambda>nq.
                let s5 = s4\<lparr>current_question := Some nq,
                            question_start_time := Some now2\<rparr>
                in
                attempt s5 (getitem (score s5)) (\<lambda>sc.
                attempt s5 (getitem (total_questions s5)) (\<lambda>tq.
                attempt s5 (getitem (correct_answers s5)) (\<lambda>ca.
                  (Inr (Submitted \<lparr>is_correct = is_c, correct_answer = correct,
                          r_score = sc, next_question = question nq,
                          r_time_limit = time_limit nq, r_total_questions = tq,
                          r_correct_answers = ca\<rparr>), s5))))))))))))))"

text \<open>The row of \<^verbatim>\<open>models.GameResult\<close> that \<^verbatim>\<open>end_game\<close> fills in.\<close>

record game_result =
  gr_difficulty :: json
  gr_score :: int
  gr_total_questions :: int
  gr_correct_answers :: int
  gr_accuracy :: rat
  gr_duration :: rat

text \<open>
  \<^verbatim>\<open>end_game\<close>. The database is the persistence collaborator: \<open>commit row db\<close> is
  \<^verbatim>\<open>db.session.add(row); db.session.commit()\<close>, which may raise. Python's
  \<^verbatim>\<open>round(x, 1)\<close> works on the binary float the source holds and is a parameter
  \<open>round_tenth\<close>: \<open>round_tenth x\<close> is what it returns where the exact value is \<open>x\<close>.
\<close>

definition end_game ::
  "(rat \<Rightarrow> rat) \<Rightarrow> (game_result \<Rightarrow> 'db \<Rightarrow> py_error + 'db) \<Rightarrow> timestamp \<Rightarrow> session \<Rightarrow> 'db
     \<Rightarrow> (py_error + response) \<times> session \<times> 'db" where
  "end_game round_tenth commit now s db =
    (if game_active s \<noteq> Some True then (Inr (Failure ''Nenhum jogo ativo''), s, db)
     else
      attempt (s, db) (getitem (start_time s)) (\<lambda>started.
        let game_duration = total_seconds now started in
        attempt (s, db) (getitem (total_questions s)) (\<lambda>tq0.
        attempt (s, db) (if tq0 > 0
                  then bind_err (getitem (correct_answers s)) (\<lambda>ca.
                       bind_err (getitem (total_questions s)) (\<lambda>tq.
                         Inr (of_int ca / of_int tq * 100)))
                  else Inr 0) (\<lambda>accuracy.
        attempt (s, db) (getitem (difficulty s)) (\<lambda>d.
        attempt (s, db) (getitem (score s)) (\<lambda>sc.
        attempt (s, db) (getitem (total_questions s)) (\<lambda>tq.
        attempt (s, db) (getitem (correct_answers s)) (\<lambda>ca.
        attempt (s, db) (commit \<lparr>gr_difficulty = d, gr_score = sc, gr_total_questions = tq,
                    gr_correct_answers = ca, gr_accuracy = accuracy,
                    gr_duration = game_duration\<rparr> db) (\<lambda>db'.
          (Inr (Ended \<lparr>fs_score = sc, fs_total_questions = tq, fs_correct_answers = ca,
                  fs_accuracy = round_tenth accuracy, fs_duration = round_tenth game_duration,
                  fs_difficulty = d\<rparr>),
           s\<lparr>game_active := Some False\<rparr>, db'))))))))))"

text \<open>
  What the handlers keep true of the session, from the empty one on: the keys that
  \<^verbatim>\<open>start_game\<close> stores with the active flag are present once the game is active, and the
  start time of a question is stored with the question.
\<close>

definition session_ok :: "session \<Rightarrow> bool" where
  "session_ok s =
    ((game_active s = Some True \<longrightarrow>
        difficulty s \<noteq> None \<and> score s \<noteq> None \<and> total_questions s \<noteq> None
        \<and> correct_answers s \<noteq> None \<and> start_time s \<noteq> None)
     \<and> (current_question s \<noteq> None \<longrightarrow> question_start_time s \<noteq> None))"

text \<open>The tier identifiers.\<close>

definition valid_tier :: "json \<Rightarrow> bool" where
  "valid_tier d = (d = JStr ''easy'' \<or> d = JStr ''medium'' \<or> d = JStr ''hard'')"

text \<open>The bound on the operands that \<open>max_number\<close> is read as.\<close>

definition operands_within_max :: "settings \<Rightarrow> locals \<Rightarrow> bool" where
  "operands_within_max st l =
    (case operands l of None \<Rightarrow> True
     | Some (n1, n2) \<Rightarrow> n1 \<le> max_number st \<and> n2 \<le> max_number st)"

text \<open>
  A session in play, as \<^verbatim>\<open>start_game\<close> leaves it for an empty payload, and a
  persistence layer that stores every row.
\<close>

definition playing_example :: session where
  "playing_example =
    \<lparr>game_active = Some True, difficulty = Some (JStr ''easy''), score = Some 0,
     total_questions = Some 0, correct_answers = Some 0, start_time = Some 0,
     current_question = Some \<lparr>question = ''4 + 5'', answer = 9, time_limit = 30\<rparr>,
     question_start_time = Some 0\<rparr>"

definition append_row :: "game_result \<Rightarrow> game_result list \<Rightarrow> py_error + game_result list" where
  "append_row row db = Inr (db @ [row])"

section \<open>Auxiliary facts\<close>

lemma bind_err_Inr_iff: "bind_err m f = Inr y \<longleftrightarrow> (\<exists>a. m = Inr a \<and> f a = Inr y)"
  by (cases m) (simp_all add: bind_err_def)

lemma bind_err_Inl_iff: "bind_err m f = Inl e \<longleftrightarrow> (m = Inl e \<or> (\<exists>a. m = Inr a \<and> f a = Inl e))"
  by (cases m) (simp_all add: bind_err_def)

lemma bind_err_Inr [simp]: "bind_err (Inr a) f = f a"
  by (simp add: bind_err_def)

lemma bind_err_Inl [simp]: "bind_err (Inl e) f = Inl e"
  by (simp add: bind_err_def)

lemma randint_range: "randint a b r = Inr x \<Longrightarrow> a \<le> x \<and> x \<le> b"
proof -
  assume h: "randint a b r = Inr x"
  then have ab: "a \<le> b" by (simp add: randint_def split: if_splits)
  from h ab have x: "x = a + int (r mod nat (b - a + 1))" by (simp add: randint_def)
  have "r mod nat (b - a + 1) < nat (b - a + 1)" using ab by simp
  then show ?thesis using x ab by linarith
qed

lemma randint_total: "a \<le> b \<Longrightarrow> \<exists>x. randint a b r = Inr x"
  by (simp add: randint_def)

lemma randint_onto: "a \<le> x \<Longrightarrow> x \<le> b \<Longrightarrow> randint a b (nat (x - a)) = Inr x"
  by (simp add: randint_def)

lemma choice_mem: "choice xs r = Inr x \<Longrightarrow> x \<in> set xs"
  by (auto simp: choice_def split: if_splits)

lemma choice_total: "xs \<noteq> [] \<Longrightarrow> \<exists>x. choice xs r = Inr x"
  by (simp add: choice_def)

lemma settings_for_Inr:
  "settings_for d = Inr st \<Longrightarrow>
     (d = JStr ''easy'' \<and> st = \<lparr>max_number = 10, operations = [''+'', ''-''], st_time_limit = 30\<rparr>)
   \<or> (d = JStr ''medium'' \<and> st = \<lparr>max_number = 50, operations = [''+'', ''-'', ''*''], st_time_limit = 20\<rparr>)
   \<or> (d = JStr ''hard'' \<and> st = \<lparr>max_number = 100, operations = [''+'', ''-'', ''*'', ''/''], st_time_limit = 15\<rparr>)"
  by (cases d) (auto simp: DIFFICULTY_SETTINGS_def split: if_splits option.splits)

lemma settings_for_easy: "settings_for (JStr ''easy'') = Inr \<lparr>max_number = 10, operations = [''+'', ''-''], st_time_limit = 30\<rparr>"
  by (simp add: DIFFICULTY_SETTINGS_def)
lemma settings_for_medium: "settings_for (JStr ''medium'') = Inr \<lparr>max_number = 50, operations = [''+'', ''-'', ''*''], st_time_limit = 20\<rparr>"
  by (simp add: DIFFICULTY_SETTINGS_def)
lemma settings_for_hard: "settings_for (JStr ''hard'') = Inr \<lparr>max_number = 100, operations = [''+'', ''-'', ''*'', ''/''], st_time_limit = 15\<rparr>"
  by (simp add: DIFFICULTY_SETTINGS_def)

lemma settings_for_invalid: "\<not> valid_tier d \<Longrightarrow> settings_for d = Inl KeyError \<or> settings_for d = Inl TypeError"
  by (cases d) (auto simp: valid_tier_def DIFFICULTY_SETTINGS_def)

lemma generate_locals_shape:
  assumes "generate_locals st rng = Inr l"
  shows "operation l \<in> set (operations st)"
    and "operation l = ''+'' \<Longrightarrow> \<exists>n1 n2. randint 1 (max_number st) (rng 1) = Inr n1 \<and> randint 1 (max_number st) (rng 2) = Inr n2
            \<and> operands l = Some (n1, n2) \<and> answer_of l = n1 + n2"
    and "operation l = ''-'' \<Longrightarrow> \<exists>n1 n2. randint 1 (max_number st) (rng 1) = Inr n1 \<and> randint 1 n1 (rng 2) = Inr n2
            \<and> operands l = Some (n1, n2) \<and> answer_of l = n1 - n2"
    and "operation l = ''*'' \<Longrightarrow> \<exists>n1 n2. randint 1 (min (max_number st div 5) 12) (rng 1) = Inr n1 \<and> randint 1 (min (max_number st div 5) 12) (rng 2) = Inr n2
            \<and> operands l = Some (n1, n2) \<and> answer_of l = n1 * n2"
    and "operation l = ''/'' \<Longrightarrow> \<exists>n2. randint 1 (min (max_number st div 5) 12) (rng 1) = Inr (answer_of l) \<and> randint 2 (min (max_number st div 10) 10) (rng 2) = Inr n2
            \<and> operands l = Some (answer_of l * n2, n2)"
  using assms
  by (auto simp: generate_locals_def bind_err_Inr_iff choice_mem split: if_splits)


lemma generate_question_eq:
  "settings_for d = Inr st \<Longrightarrow> generate_locals st rng = Inr l \<Longrightarrow>
   generate_question d rng =
     Inr \<lparr>question = text_of l, answer = answer_of l, time_limit = st_time_limit st\<rparr>"
  by (simp add: generate_question_def)

lemma generate_locals_total:
  assumes "settings_for d = Inr st"
  shows "\<exists>l. generate_locals st rng = Inr l"
proof -
  from settings_for_Inr [OF assms] consider
    (easy) "st = \<lparr>max_number = 10, operations = [''+'', ''-''], st_time_limit = 30\<rparr>"
  | (medium) "st = \<lparr>max_number = 50, operations = [''+'', ''-'', ''*''], st_time_limit = 20\<rparr>"
  | (hard) "st = \<lparr>max_number = 100, operations = [''+'', ''-'', ''*'', ''/''], st_time_limit = 15\<rparr>"
    by blast
  then show ?thesis
  proof cases
    case easy
    obtain opn where c: "choice (operations st) (rng 0) = Inr opn"
      using choice_total [of "operations st" "rng 0"] easy by auto
    from choice_mem [OF c] easy have "opn = ''+'' \<or> opn = ''-''" by simp
    then show ?thesis using c easy
      by (auto simp: generate_locals_def randint_def)
  next
    case medium
    obtain opn where c: "choice (operations st) (rng 0) = Inr opn"
      using choice_total [of "operations st" "rng 0"] medium by auto
    from choice_mem [OF c] medium have "opn = ''+'' \<or> opn = ''-'' \<or> opn = ''*''" by simp
    then show ?thesis using c medium
      by (auto simp: generate_locals_def randint_def)
  next
    case hard
    obtain opn where c: "choice (operations st) (rng 0) = Inr opn"
      using choice_total [of "operations st" "rng 0"] hard by auto
    from choice_mem [OF c] hard have "opn = ''+'' \<or> opn = ''-'' \<or> opn = ''*'' \<or> opn = ''/''" by simp
    then show ?thesis using c hard
      by (auto simp: generate_locals_def randint_def)
  qed
qed

lemma hard_division_run:
  "generate_locals \<lparr>max_number = 100, operations = [''+'', ''-'', ''*'', ''/''], st_time_limit = 15\<rparr>
     (rng_of [3, 11, 8]) =
   Inr \<lparr>operation = ''/'', operands = Some (120, 10),
        text_of = ''120'' @ divide_sign @ ''10'', answer_of = 12\<rparr>"
  by (simp add: generate_locals_def choice_def randint_def rng_of_def str_int_def
      str_nat.simps digit_char_def)

lemma valid_tier_settings: "valid_tier d \<longleftrightarrow> (\<exists>st. settings_for d = Inr st)"
proof
  assume "valid_tier d"
  then show "\<exists>st. settings_for d = Inr st"
    unfolding valid_tier_def
    using settings_for_easy settings_for_medium settings_for_hard by blast
next
  assume "\<exists>st. settings_for d = Inr st"
  then obtain st where "settings_for d = Inr st" ..
  from settings_for_Inr [OF this] show "valid_tier d"
    unfolding valid_tier_def by blast
qed

lemma settings_operations:
  assumes "settings_for d = Inr st"
  shows "set (operations st) \<subseteq> {''+'', ''-'', ''*'', ''/''}"
    and "max_number st \<in> {10, 50, 100}"
    and "''/'' \<in> set (operations st) \<Longrightarrow> max_number st = 100"
  using settings_for_Inr [OF assms] by auto

lemma generate_locals_bounds:
  assumes st: "settings_for d = Inr st" and l: "generate_locals st rng = Inr l"
  shows "\<exists>n1 n2. operands l = Some (n1, n2) \<and> 1 \<le> n1 \<and> 1 \<le> n2
      \<and> (operation l = ''+'' \<longrightarrow> n1 \<le> max_number st \<and> n2 \<le> max_number st \<and> answer_of l = n1 + n2)
      \<and> (operation l = ''-'' \<longrightarrow> n1 \<le> max_number st \<and> n2 \<le> n1 \<and> answer_of l = n1 - n2)
      \<and> (operation l = ''*'' \<longrightarrow> n1 \<le> min (max_number st div 5) 12
            \<and> n2 \<le> min (max_number st div 5) 12 \<and> answer_of l = n1 * n2)
      \<and> (operation l = ''/'' \<longrightarrow> n1 = answer_of l * n2 \<and> 1 \<le> answer_of l
            \<and> answer_of l \<le> 12 \<and> 2 \<le> n2 \<and> n2 \<le> 10 \<and> max_number st = 100)"
proof -
  have mem: "operation l \<in> set (operations st)"
    by (rule generate_locals_shape(1) [OF l])
  with settings_operations(1) [OF st]
  consider (add) "operation l = ''+''" | (sub) "operation l = ''-''"
    | (mul) "operation l = ''*''" | (dvd) "operation l = ''/''"
    by auto
  then show ?thesis
  proof cases
    case add
    from generate_locals_shape(2) [OF l add] obtain n1 n2 where
      a: "randint 1 (max_number st) (rng 1) = Inr n1" and
      b: "randint 1 (max_number st) (rng 2) = Inr n2" and
      c: "operands l = Some (n1, n2)" "answer_of l = n1 + n2" by blast
    from randint_range [OF a] randint_range [OF b] c add show ?thesis by simp
  next
    case sub
    from generate_locals_shape(3) [OF l sub] obtain n1 n2 where
      a: "randint 1 (max_number st) (rng 1) = Inr n1" and
      b: "randint 1 n1 (rng 2) = Inr n2" and
      c: "operands l = Some (n1, n2)" "answer_of l = n1 - n2" by blast
    from randint_range [OF a] randint_range [OF b] c sub show ?thesis by simp
  next
    case mul
    from generate_locals_shape(4) [OF l mul] obtain n1 n2 where
      a: "randint 1 (min (max_number st div 5) 12) (rng 1) = Inr n1" and
      b: "randint 1 (min (max_number st div 5) 12) (rng 2) = Inr n2" and
      c: "operands l = Some (n1, n2)" "answer_of l = n1 * n2" by blast
    from randint_range [OF a] randint_range [OF b] c mul show ?thesis by simp
  next
    case dvd
    from mem dvd settings_operations(3) [OF st] have mx: "max_number st = 100" by simp
    from generate_locals_shape(5) [OF l dvd] obtain n2 where
      a: "randint 1 (min (max_number st div 5) 12) (rng 1) = Inr (answer_of l)" and
      b: "randint 2 (min (max_number st div 10) 10) (rng 2) = Inr n2" and
      c: "operands l = Some (answer_of l * n2, n2)" by blast
    from randint_range [OF a] mx have ra: "1 \<le> answer_of l" "answer_of l \<le> 12" by simp_all
    from randint_range [OF b] mx have rb: "2 \<le> n2" "n2 \<le> 10" by simp_all
    from ra(1) rb(1) have "1 * 1 \<le> answer_of l * n2"
      by (intro mult_mono) simp_all
    with ra rb c dvd mx show ?thesis by simp
  qed
qed

section \<open>Properties of the question generator\<close>

text \<open>
  C1. A generated division question comes from the hard tier only; its first operand is
  the answer times the second operand, with the answer drawn from
  \<open>[1, min (max_number div 5) 12]\<close> and the divisor from \<open>[2, min (max_number div 10) 10]\<close>.
  The answer is the drawn value itself, and dividing the dividend by the divisor gives it
  back with no remainder.
\<close>

theorem division_question_exact:
  assumes "settings_for d = Inr st"
    and "generate_locals st rng = Inr l"
    and "operation l = ''/''"
  shows "d = JStr ''hard'' \<and> max_number st = 100
    \<and> generate_question d rng =
        Inr \<lparr>question = text_of l, answer = answer_of l, time_limit = st_time_limit st\<rparr>
    \<and> (\<exists>n2. operands l = Some (answer_of l * n2, n2)
          \<and> 1 \<le> answer_of l \<and> answer_of l \<le> min (max_number st div 5) 12
          \<and> 2 \<le> n2 \<and> n2 \<le> min (max_number st div 10) 10
          \<and> (answer_of l * n2) mod n2 = 0 \<and> (answer_of l * n2) div n2 = answer_of l)"
proof -
  have mem: "operation l \<in> set (operations st)"
    by (rule generate_locals_shape(1) [OF assms(2)])
  with assms(3) settings_for_Inr [OF assms(1)]
  have hard: "d = JStr ''hard''" "max_number st = 100" by auto
  from generate_locals_shape(5) [OF assms(2) assms(3)] obtain n2 where
    a: "randint 1 (min (max_number st div 5) 12) (rng 1) = Inr (answer_of l)" and
    b: "randint 2 (min (max_number st div 10) 10) (rng 2) = Inr n2" and
    ops: "operands l = Some (answer_of l * n2, n2)"
    by blast
  from randint_range [OF a] have r1: "1 \<le> answer_of l \<and> answer_of l \<le> min (max_number st div 5) 12" .
  from randint_range [OF b] have r2: "2 \<le> n2 \<and> n2 \<le> min (max_number st div 10) 10" .
  from r2 have "n2 \<noteq> 0" by simp
  then have dm: "(answer_of l * n2) mod n2 = 0 \<and> (answer_of l * n2) div n2 = answer_of l"
    by simp
  have ex: "\<exists>n2. operands l = Some (answer_of l * n2, n2)
          \<and> 1 \<le> answer_of l \<and> answer_of l \<le> min (max_number st div 5) 12
          \<and> 2 \<le> n2 \<and> n2 \<le> min (max_number st div 10) 10
          \<and> (answer_of l * n2) mod n2 = 0 \<and> (answer_of l * n2) div n2 = answer_of l"
    using ops r1 r2 dm by (intro exI [of _ n2]) (simp only: simp_thms)
  have gq: "generate_question d rng =
        Inr \<lparr>question = text_of l, answer = answer_of l, time_limit = st_time_limit st\<rparr>"
    by (rule generate_question_eq [OF assms(1) assms(2)]) 
  from hard gq ex show ?thesis by (simp only: simp_thms)
qed

theorem division_question_exact_witness:
  "settings_for (JStr ''hard'') =
     Inr \<lparr>max_number = 100, operations = [''+'', ''-'', ''*'', ''/''], st_time_limit = 15\<rparr>
   \<and> generate_locals
        \<lparr>max_number = 100, operations = [''+'', ''-'', ''*'', ''/''], st_time_limit = 15\<rparr>
        (rng_of [3, 11, 8]) =
       Inr \<lparr>operation = ''/'', operands = Some (120, 10),
            text_of = ''120'' @ divide_sign @ ''10'', answer_of = 12\<rparr>
   \<and> generate_question (JStr ''hard'') (rng_of [3, 11, 8]) =
       Inr \<lparr>question = ''120'' @ divide_sign @ ''10'', answer = 12, time_limit = 15\<rparr>"
  using division_question_exact [OF settings_for_hard hard_division_run]
    settings_for_hard hard_division_run
  by simp

text \<open>
  C2. For every valid tier the generator returns a question whose answer is not negative;
  in a subtraction the second operand is at most the first, and the answer is their
  difference.
\<close>

theorem answer_non_negative:
  assumes "valid_tier d"
  shows "\<exists>st l. settings_for d = Inr st \<and> generate_locals st rng = Inr l
     \<and> generate_question d rng =
         Inr \<lparr>question = text_of l, answer = answer_of l, time_limit = st_time_limit st\<rparr>
     \<and> 0 \<le> answer_of l
     \<and> (operation l = ''-'' \<longrightarrow>
          (\<exists>n1 n2. operands l = Some (n1, n2) \<and> n2 \<le> n1 \<and> answer_of l = n1 - n2))"
proof -
  from assms obtain st where st: "settings_for d = Inr st"
    unfolding valid_tier_settings ..
  from generate_locals_total [OF st] obtain l where l: "generate_locals st rng = Inr l" ..
  have mem: "operation l \<in> set (operations st)"
    by (rule generate_locals_shape(1) [OF l])
  from generate_locals_bounds [OF st l] obtain n1 n2 where
    ops: "operands l = Some (n1, n2)" and pos: "1 \<le> n1" "1 \<le> n2" and
    add: "operation l = ''+'' \<longrightarrow> answer_of l = n1 + n2" and
    sub: "operation l = ''-'' \<longrightarrow> n2 \<le> n1 \<and> answer_of l = n1 - n2" and
    mul: "operation l = ''*'' \<longrightarrow> answer_of l = n1 * n2" and
    dvd: "operation l = ''/'' \<longrightarrow> 1 \<le> answer_of l"
    by blast
  from mem settings_operations(1) [OF st]
  consider "operation l = ''+''" | "operation l = ''-''"
    | "operation l = ''*''" | "operation l = ''/''"
    by auto
  then have nonneg: "0 \<le> answer_of l"
  proof cases
    case 1 with add pos show ?thesis by simp
  next
    case 2 with sub show ?thesis by simp
  next
    case 3
    from pos have "0 \<le> n1 * n2" by (intro mult_nonneg_nonneg) simp_all
    with 3 mul show ?thesis by simp
  next
    case 4 with dvd show ?thesis by simp
  qed
  have subc: "operation l = ''-'' \<longrightarrow>
      (\<exists>n1 n2. operands l = Some (n1, n2) \<and> n2 \<le> n1 \<and> answer_of l = n1 - n2)"
    using ops sub by simp
  from st l generate_question_eq [OF st l] nonneg subc show ?thesis
    by (intro exI [of _ st] exI [of _ l]) (simp only: simp_thms)
qed

lemma easy_subtraction_run:
  "generate_locals \<lparr>max_number = 10, operations = [''+'', ''-''], st_time_limit = 30\<rparr>
     (rng_of [1, 6, 6]) =
   Inr \<lparr>operation = ''-'', operands = Some (7, 7), text_of = ''7 - 7'', answer_of = 0\<rparr>"
  by (simp add: generate_locals_def choice_def randint_def rng_of_def str_int_def
      str_nat.simps digit_char_def)

theorem answer_non_negative_witness:
  "valid_tier (JStr ''easy'')
   \<and> generate_question (JStr ''easy'') (rng_of [1, 6, 6]) =
       Inr \<lparr>question = ''7 - 7'', answer = 0, time_limit = 30\<rparr>"
  using answer_non_negative [of "JStr ''easy''" "rng_of [1, 6, 6]"]
    settings_for_easy easy_subtraction_run
  by (simp add: valid_tier_def)

text \<open>
  C3, as stated: every operand of a generated question is at most the tier's
  \<open>max_number\<close>. It fails for the dividend: the hard tier can draw the answer 12 and the
  divisor 10, and asks \<open>120 \<div> 10\<close> with \<open>max_number = 100\<close>.
\<close>

theorem dividend_above_max_number:
  "settings_for (JStr ''hard'') =
     Inr \<lparr>max_number = 100, operations = [''+'', ''-'', ''*'', ''/''], st_time_limit = 15\<rparr>
   \<and> generate_locals
        \<lparr>max_number = 100, operations = [''+'', ''-'', ''*'', ''/''], st_time_limit = 15\<rparr>
        (rng_of [3, 11, 8]) =
       Inr \<lparr>operation = ''/'', operands = Some (120, 10),
            text_of = ''120'' @ divide_sign @ ''10'', answer_of = 12\<rparr>
   \<and> \<not> operands_within_max
        \<lparr>max_number = 100, operations = [''+'', ''-'', ''*'', ''/''], st_time_limit = 15\<rparr>
        \<lparr>operation = ''/'', operands = Some (120, 10),
         text_of = ''120'' @ divide_sign @ ''10'', answer_of = 12\<rparr>"
  using settings_for_hard hard_division_run
  by (simp add: operands_within_max_def)

text \<open>
  C3, amended. For every valid tier the second operand is at most \<open>max_number\<close>, and so
  is the first operand of an addition, a subtraction and a multiplication. The dividend
  of a division is the answer times the divisor: the answer is at most \<open>max_number\<close>,
  the dividend at most 120.
\<close>

theorem operands_bounded:
  assumes "valid_tier d"
  shows "\<exists>st l n1 n2. settings_for d = Inr st \<and> generate_locals st rng = Inr l
     \<and> operands l = Some (n1, n2)
     \<and> n2 \<le> max_number st
     \<and> (operation l \<noteq> ''/'' \<longrightarrow> n1 \<le> max_number st)
     \<and> (operation l = ''/'' \<longrightarrow>
          n1 = answer_of l * n2 \<and> answer_of l \<le> max_number st \<and> n1 \<le> 120)"
proof -
  from assms obtain st where st: "settings_for d = Inr st"
    unfolding valid_tier_settings ..
  from generate_locals_total [OF st] obtain l where l: "generate_locals st rng = Inr l" ..
  have mem: "operation l \<in> set (operations st)"
    by (rule generate_locals_shape(1) [OF l])
  have mx: "max_number st = 10 \<or> max_number st = 50 \<or> max_number st = 100"
    using settings_operations(2) [OF st] by simp
  from generate_locals_bounds [OF st l] obtain n1 n2 where
    ops: "operands l = Some (n1, n2)" and pos: "1 \<le> n1" "1 \<le> n2" and
    add: "operation l = ''+'' \<longrightarrow> n1 \<le> max_number st \<and> n2 \<le> max_number st" and
    sub: "operation l = ''-'' \<longrightarrow> n1 \<le> max_number st \<and> n2 \<le> n1" and
    mul: "operation l = ''*'' \<longrightarrow> n1 \<le> min (max_number st div 5) 12
            \<and> n2 \<le> min (max_number st div 5) 12" and
    dvd: "operation l = ''/'' \<longrightarrow> n1 = answer_of l * n2 \<and> 1 \<le> answer_of l
            \<and> answer_of l \<le> 12 \<and> 2 \<le> n2 \<and> n2 \<le> 10 \<and> max_number st = 100"
    by blast
  from mem settings_operations(1) [OF st]
  consider (a) "operation l = ''+''" | (s) "operation l = ''-''"
    | (m) "operation l = ''*''" | (d) "operation l = ''/''"
    by auto
  then have body: "n2 \<le> max_number st
     \<and> (operation l \<noteq> ''/'' \<longrightarrow> n1 \<le> max_number st)
     \<and> (operation l = ''/'' \<longrightarrow>
          n1 = answer_of l * n2 \<and> answer_of l \<le> max_number st \<and> n1 \<le> 120)"
  proof cases
    case a with add show ?thesis by simp
  next
    case s with sub show ?thesis by simp
  next
    case m with mul mx show ?thesis by auto
  next
    case d
    with dvd have f: "n1 = answer_of l * n2" "1 \<le> answer_of l" "answer_of l \<le> 12"
      "2 \<le> n2" "n2 \<le> 10" "max_number st = 100" by simp_all
    from f(2-5) have "answer_of l * n2 \<le> 12 * 10"
      by (intro mult_mono) simp_all
    with f d show ?thesis by simp
  qed
  from st l ops body have final: "settings_for d = Inr st \<and> generate_locals st rng = Inr l
     \<and> operands l = Some (n1, n2)
     \<and> n2 \<le> max_number st
     \<and> (operation l \<noteq> ''/'' \<longrightarrow> n1 \<le> max_number st)
     \<and> (operation l = ''/'' \<longrightarrow>
          n1 = answer_of l * n2 \<and> answer_of l \<le> max_number st \<and> n1 \<le> 120)"
    by (elim conjE, intro conjI) assumption+
  show ?thesis
    by (rule exI [of _ st], rule exI [of _ l], rule exI [of _ n1], rule exI [of _ n2])
      (rule final)
qed

theorem operands_bounded_witness:
  "valid_tier (JStr ''medium'')
   \<and> (\<exists>st l n1 n2. settings_for (JStr ''medium'') = Inr st
        \<and> generate_locals st (rng_of [2, 9, 9]) = Inr l
        \<and> operands l = Some (n1, n2) \<and> n2 \<le> max_number st
        \<and> (operation l \<noteq> ''/'' \<longrightarrow> n1 \<le> max_number st)
        \<and> (operation l = ''/'' \<longrightarrow>
             n1 = answer_of l * n2 \<and> answer_of l \<le> max_number st \<and> n1 \<le> 120))"
  using operands_bounded [of "JStr ''medium''" "rng_of [2, 9, 9]"]
  by (simp add: valid_tier_def)

text \<open>
  C7. \<^verbatim>\<open>generate_question\<close> returns a question for each of the three tier identifiers,
  whatever the random draws. For every other argument the lookup in
  \<^verbatim>\<open>DIFFICULTY_SETTINGS\<close> raises: \<^verbatim>\<open>KeyError\<close>, or \<^verbatim>\<open>TypeError\<close> for an unhashable
  argument.
\<close>

theorem generate_question_tiers:
  "(valid_tier d \<longrightarrow> (\<exists>q. generate_question d rng = Inr q))
   \<and> (\<not> valid_tier d \<longrightarrow>
        generate_question d rng = Inl KeyError \<or> generate_question d rng = Inl TypeError)"
proof (intro conjI impI)
  assume "valid_tier d"
  then obtain st where st: "settings_for d = Inr st"
    unfolding valid_tier_settings ..
  from generate_locals_total [OF st] obtain l where l: "generate_locals st rng = Inr l" ..
  from generate_question_eq [OF st l] show "\<exists>q. generate_question d rng = Inr q" ..
next
  assume "\<not> valid_tier d"
  from settings_for_invalid [OF this]
  show "generate_question d rng = Inl KeyError \<or> generate_question d rng = Inl TypeError"
    by (auto simp: generate_question_def)
qed

theorem generate_question_tiers_witness:
  "valid_tier (JStr ''easy'')
   \<and> (\<exists>q. generate_question (JStr ''easy'') (rng_of [1, 6, 6]) = Inr q)
   \<and> \<not> valid_tier (JStr ''expert'')
   \<and> generate_question (JStr ''expert'') (rng_of [1, 6, 6]) = Inl KeyError"
  using generate_question_tiers [of "JStr ''easy''" "rng_of [1, 6, 6]"]
    generate_question_tiers [of "JStr ''expert''" "rng_of [1, 6, 6]"]
  by (simp add: valid_tier_def generate_question_def DIFFICULTY_SETTINGS_def)


section \<open>Auxiliary facts about the handlers\<close>

lemma py_trunc_bonus: "max 1 (py_trunc x) = max 1 \<lfloor>x\<rfloor>"
proof (cases "0 \<le> x")
  case True
  then show ?thesis by (simp add: py_trunc_def)
next
  case False
  then have "x < 0" by simp
  then have "\<lceil>x\<rceil> \<le> 0" "\<lfloor>x\<rfloor> \<le> 0"
    by (simp_all add: ceiling_le_iff floor_le_iff)
  with False show ?thesis by (simp add: py_trunc_def)
qed

lemma easy_addition_run:
  "generate_question (JStr ''easy'') (rng_of [0, 3, 4]) =
     Inr \<lparr>question = ''4 + 5'', answer = 9, time_limit = 30\<rparr>"
  by (simp add: generate_question_def DIFFICULTY_SETTINGS_def generate_locals_def choice_def
      randint_def rng_of_def str_int_def str_nat.simps digit_char_def)

lemma easy_subtraction_question:
  "generate_question (JStr ''easy'') (rng_of [1, 6, 6]) =
     Inr \<lparr>question = ''7 - 7'', answer = 0, time_limit = 30\<rparr>"
  using generate_question_eq [OF settings_for_easy easy_subtraction_run] by simp

lemma generate_question_tiers_aux:
  "valid_tier d \<Longrightarrow> \<exists>q. generate_question d rng = Inr q"
proof -
  assume "valid_tier d"
  then obtain st where st: "settings_for d = Inr st"
    unfolding valid_tier_settings ..
  from generate_locals_total [OF st] obtain l where l: "generate_locals st rng = Inr l" ..
  from generate_question_eq [OF st l] show ?thesis ..
qed

lemma attempt_Inr [simp]: "attempt st (Inr a) f = f a"
  by (simp add: attempt_def)

lemma attempt_Inl [simp]: "attempt st (Inl e) f = (Inl e, st)"
  by (simp add: attempt_def)

lemma getitem_Some [simp]: "getitem (Some x) = Inr x"
  by (simp add: getitem_def)

lemma getitem_None [simp]: "getitem None = Inl KeyError"
  by (simp add: getitem_def)

lemma submit_answer_inactive:
  "game_active s \<noteq> Some True \<Longrightarrow>
   submit_answer conv data now1 now2 rng s = (Inr (Failure ''Nenhum jogo ativo''), s)"
  by (simp add: submit_answer_def)

lemma end_game_inactive:
  "game_active s \<noteq> Some True \<Longrightarrow>
   end_game round_tenth commit now s db = (Inr (Failure ''Nenhum jogo ativo''), s, db)"
  by (simp add: end_game_def)

lemma submit_answer_unparsed:
  assumes "game_active s = Some True" and "current_question s = Some cq"
    and "bind_err (py_get data ''answer'' JNone) (parse_answer conv) = Inl e"
  shows "submit_answer conv data now1 now2 rng s = (Inl e, s)"
proof (cases "py_get data ''answer'' JNone")
  case (Inl e')
  with assms(3) have "e' = e" by simp
  with Inl assms(1) show ?thesis by (simp add: submit_answer_def)
next
  case (Inr raw)
  with assms(3) have "parse_answer conv raw = Inl e" by simp
  with Inr assms(1,2) show ?thesis by (simp add: submit_answer_def)
qed

lemma submit_answer_scored:
  fixes e :: rat
  assumes act: "game_active s = Some True" and cq: "current_question s = Some cq"
    and tq: "total_questions s = Some n" and ca: "correct_answers s = Some c"
    and sc: "score s = Some sc" and qs: "question_start_time s = Some t0"
    and raw: "py_get data ''answer'' JNone = Inr raw"
    and ua: "parse_answer conv raw = Inr ua"
    and e: "e = total_seconds now1 t0"
    and gain: "gain = (if ua = Some (answer cq)
                 then 10 + (if e < of_int (time_limit cq) / 2 then max 1 (py_trunc (10 - e)) else 0)
                 else 0)"
    and s': "s' = snd (submit_answer conv data now1 now2 rng s)"
  shows "total_questions s' = Some (n + 1)
     \<and> correct_answers s' = Some (if ua = Some (answer cq) then c + 1 else c)
     \<and> score s' = Some (sc + gain)"
proof (cases "ua = Some (answer cq)")
  case True
  show ?thesis
  proof (cases "e < of_int (time_limit cq) / 2")
    case t: True
    with True gain have g: "gain = 10 + max 1 (py_trunc (10 - e))" by simp
    show ?thesis
      unfolding s' submit_answer_def add_total_questions_def add_correct_answers_def
        add_score_def Let_def
      using act cq tq ca sc qs raw ua True t g
      by (simp add: e [symmetric] add.assoc attempt_def split: option.splits sum.splits)
  next
    case f: False
    with True gain have g: "gain = 10" by simp
    show ?thesis
      unfolding s' submit_answer_def add_total_questions_def add_correct_answers_def
        add_score_def Let_def
      using act cq tq ca sc qs raw ua True f g
      by (simp add: e [symmetric] attempt_def split: option.splits sum.splits)
  qed
next
  case False
  with gain have g: "gain = 0" by simp
  show ?thesis
    unfolding s' submit_answer_def add_total_questions_def add_correct_answers_def
      add_score_def Let_def
    using act cq tq ca sc qs raw ua False g
    by (simp add: attempt_def split: option.splits sum.splits)
qed

lemma submit_answer_playing:
  fixes e :: rat
  assumes act: "game_active s = Some True" and cq: "current_question s = Some cq"
    and tq: "total_questions s = Some n" and ca: "correct_answers s = Some c"
    and sc: "score s = Some sc" and qs: "question_start_time s = Some t0"
    and d: "difficulty s = Some d"
    and raw: "py_get data ''answer'' JNone = Inr raw"
    and ua: "parse_answer conv raw = Inr ua"
    and nq: "generate_question d rng = Inr nq"
    and e: "e = total_seconds now1 t0"
    and gain: "gain = (if ua = Some (answer cq)
                 then 10 + (if e < of_int (time_limit cq) / 2 then max 1 (py_trunc (10 - e)) else 0)
                 else 0)"
  shows "submit_answer conv data now1 now2 rng s =
     (Inr (Submitted \<lparr>is_correct = (ua = Some (answer cq)), correct_answer = answer cq,
            r_score = sc + gain, next_question = question nq,
            r_time_limit = time_limit nq, r_total_questions = n + 1,
            r_correct_answers = (if ua = Some (answer cq) then c + 1 else c)\<rparr>),
      s\<lparr>total_questions := Some (n + 1),
        correct_answers := Some (if ua = Some (answer cq) then c + 1 else c),
        score := Some (sc + gain),
        current_question := Some nq, question_start_time := Some now2\<rparr>)"
proof (cases "ua = Some (answer cq)")
  case True
  show ?thesis
  proof (cases "e < of_int (time_limit cq) / 2")
    case t: True
    with True gain have g: "gain = 10 + max 1 (py_trunc (10 - e))" by simp
    show ?thesis
      unfolding submit_answer_def add_total_questions_def add_correct_answers_def
        add_score_def Let_def
      using act cq tq ca sc qs d raw ua nq True t g
      by (simp add: e [symmetric] add.assoc)
  next
    case f: False
    with True gain have g: "gain = 10" by simp
    show ?thesis
      unfolding submit_answer_def add_total_questions_def add_correct_answers_def
        add_score_def Let_def
      using act cq tq ca sc qs d raw ua nq True f g
      by (simp add: e [symmetric])
  qed
next
  case False
  with gain have g: "gain = 0" by simp
  show ?thesis
    unfolding submit_answer_def add_total_questions_def add_correct_answers_def
      add_score_def Let_def
    using act cq tq ca sc qs d raw ua nq False g
    by simp
qed

lemma end_game_playing:
  assumes act: "game_active s = Some True" and st: "start_time s = Some t0"
    and tq: "total_questions s = Some n" and ca: "correct_answers s = Some c"
    and sc: "score s = Some sc" and d: "difficulty s = Some d"
    and acc: "accuracy = (if n > 0 then of_int c / of_int n * 100 else 0)"
    and com: "commit \<lparr>gr_difficulty = d, gr_score = sc, gr_total_questions = n,
                gr_correct_answers = c, gr_accuracy = accuracy,
                gr_duration = total_seconds now t0\<rparr> db = Inr db'"
  shows "end_game round_tenth commit now s db =
     (Inr (Ended \<lparr>fs_score = sc, fs_total_questions = n, fs_correct_answers = c,
            fs_accuracy = round_tenth accuracy, fs_duration = round_tenth (total_seconds now t0),
            fs_difficulty = d\<rparr>),
      s\<lparr>game_active := Some False\<rparr>, db')"
proof (cases "0 < n")
  case True
  with acc have a: "of_int c / of_int n * 100 = accuracy" by simp
  show ?thesis
    unfolding end_game_def Let_def
    by (simp only: act st tq ca sc d True a com bind_err_Inr attempt_Inr getitem_Some
        if_True if_False simp_thms)
next
  case False
  with acc have a: "accuracy = 0" by simp
  show ?thesis
    unfolding end_game_def Let_def
    using com False
    by (simp only: act st tq ca sc d a bind_err_Inr attempt_Inr getitem_Some if_False
        if_True simp_thms)
qed

lemma end_game_Ended:
  assumes "end_game round_tenth commit now s db = (Inr (Ended fs), s', db')"
  shows "s' = s\<lparr>game_active := Some False\<rparr>"
  using assms
  by (auto simp: end_game_def attempt_def Let_def split: if_splits sum.splits)

lemma start_game_Inr:
  assumes "start_game data now1 now2 rng s = (Inr r, s')"
  shows "game_active s' = Some True \<and> score s' = Some 0 \<and> total_questions s' = Some 0
     \<and> correct_answers s' = Some 0"
  using assms
  by (auto simp: start_game_def attempt_def Let_def split: sum.splits)

text \<open>
  \<open>session_ok\<close> holds of the empty session and every handler keeps it, on the paths that
  return and on those that raise.
\<close>

lemma session_ok_empty: "session_ok empty_session"
  by (simp add: session_ok_def empty_session_def)

lemma session_ok_start_game:
  "session_ok s \<Longrightarrow> session_ok (snd (start_game data now1 now2 rng s))"
  by (auto simp: start_game_def attempt_def Let_def session_ok_def split: sum.splits)

lemma session_ok_end_game:
  "session_ok s \<Longrightarrow> session_ok (fst (snd (end_game round_tenth commit now s db)))"
  by (auto simp: end_game_def attempt_def Let_def session_ok_def split: sum.splits)

lemma session_ok_playing:
  assumes "session_ok s" and "game_active s = Some True" and "current_question s = Some cq"
  shows "\<exists>n c sc t0 d. total_questions s = Some n \<and> correct_answers s = Some c
     \<and> score s = Some sc \<and> question_start_time s = Some t0 \<and> difficulty s = Some d"
  using assms by (auto simp: session_ok_def)

lemma add_total_questions_ok:
  "add_total_questions k s = Inr s1 \<Longrightarrow> session_ok s \<Longrightarrow> session_ok s1"
  by (auto simp: add_total_questions_def session_ok_def getitem_def split: option.splits)

lemma add_correct_answers_ok:
  "(if b then add_correct_answers k s else Inr s) = Inr s1 \<Longrightarrow> session_ok s \<Longrightarrow> session_ok s1"
  by (auto simp: add_correct_answers_def session_ok_def getitem_def split: option.splits if_splits)

lemma add_score_ok:
  "(if b then add_score k s else Inr s) = Inr s1 \<Longrightarrow> session_ok s \<Longrightarrow> session_ok s1"
  by (auto simp: add_score_def session_ok_def getitem_def split: option.splits if_splits)

lemma next_question_ok:
  "session_ok s \<Longrightarrow>
   session_ok (s\<lparr>current_question := Some nq, question_start_time := Some t\<rparr>)"
  by (simp add: session_ok_def)

lemma attempt_ok:
  "session_ok st \<Longrightarrow> (\<And>a. m = Inr a \<Longrightarrow> session_ok (snd (f a))) \<Longrightarrow>
   session_ok (snd (attempt st m f))"
  by (cases m) simp_all

lemma session_ok_submit_answer:
  assumes ok: "session_ok s"
  shows "session_ok (snd (submit_answer conv data now1 now2 rng s))"
proof (cases "game_active s = Some True")
  case False
  then show ?thesis using ok by (simp add: submit_answer_inactive)
next
  case True
  show ?thesis
  proof (cases "current_question s")
    case None
    show ?thesis
      unfolding submit_answer_def using True None ok
      by (auto intro!: attempt_ok)
  next
    case (Some cq)
    have tail: "session_ok (snd (attempt s5 (getitem (score s5)) (\<lambda>sc.
                attempt s5 (getitem (total_questions s5)) (\<lambda>tq.
                attempt s5 (getitem (correct_answers s5)) (\<lambda>ca. (Inr (g sc tq ca), s5))))))"
      if "session_ok s5" for s5 and g :: "int \<Rightarrow> int \<Rightarrow> int \<Rightarrow> response"
      using that by (intro attempt_ok) simp_all
    show ?thesis
      unfolding submit_answer_def Let_def using True Some
      apply (simp only: simp_thms if_False option.case)
      apply (rule attempt_ok, rule ok)
      apply (rule attempt_ok, rule ok)
      apply (rule attempt_ok, rule ok)
      apply (drule add_total_questions_ok [OF _ ok])
      apply (rule attempt_ok, assumption)
      apply (drule (1) add_correct_answers_ok)
      apply (rule attempt_ok, assumption)
      apply (drule (1) add_score_ok)
      apply (rule attempt_ok, assumption)
      apply (rule attempt_ok, assumption)
      apply (drule (1) add_score_ok)
      apply (rule attempt_ok, assumption)
      apply (rule attempt_ok, assumption)
      apply (rule tail)
      apply (erule next_question_ok)
      done
  qed
qed

lemma playing_example_fields:
  "game_active playing_example = Some True"
  "current_question playing_example =
     Some \<lparr>question = ''4 + 5'', answer = 9, time_limit = 30\<rparr>"
  "total_questions playing_example = Some 0" "correct_answers playing_example = Some 0"
  "score playing_example = Some 0" "question_start_time playing_example = Some 0"
  "difficulty playing_example = Some (JStr ''easy'')"
  "start_time playing_example = Some 0"
  by (simp_all add: playing_example_def)

lemma session_ok_playing_example: "session_ok playing_example"
  by (simp add: session_ok_def playing_example_def)

section \<open>Properties of the handlers\<close>

text \<open>
  C4. The claim counts every submission to an active session with a current question.
  For the raw answer infinity (the JSON number \<^verbatim>\<open>1e999\<close>) \<^verbatim>\<open>int\<close> raises
  \<^verbatim>\<open>OverflowError\<close> before the counters are touched: the handler ends with the session
  as it found it, \<open>total_questions\<close> still 0.
\<close>

theorem infinite_answer_not_counted:
  "snd (submit_answer conv (JDict [(''answer'', JFloat PosInf)]) now1 now2 rng playing_example)
     = playing_example
   \<and> total_questions
       (snd (submit_answer conv (JDict [(''answer'', JFloat PosInf)]) now1 now2 rng
          playing_example)) = Some 0"
  by (simp add: submit_answer_def playing_example_def parse_answer_def)

text \<open>
  For every submission whose raw answer the \<^verbatim>\<open>try\<close> block turns into a parsed answer (an
  integer or the sentinel) the counters move as the claim says, whether or not the handler
  goes on to return: \<open>total_questions\<close> grows by one; \<open>correct_answers\<close> grows by one and
  the score by at least 10 when the parsed answer is the question's answer, and both stay
  otherwise.
\<close>

lemma scored_submission_counters:
  assumes "game_active s = Some True" and "current_question s = Some cq"
    and "total_questions s = Some n" and "correct_answers s = Some c"
    and "score s = Some sc" and "question_start_time s = Some t0"
    and "py_get data ''answer'' JNone = Inr raw"
    and "parse_answer conv raw = Inr ua"
    and "s' = snd (submit_answer conv data now1 now2 rng s)"
  shows "total_questions s' = Some (n + 1)
     \<and> (ua = Some (answer cq) \<longrightarrow>
          correct_answers s' = Some (c + 1) \<and> (\<exists>k. 10 \<le> k \<and> score s' = Some (sc + k)))
     \<and> (ua \<noteq> Some (answer cq) \<longrightarrow> correct_answers s' = Some c \<and> score s' = Some sc)"
proof -
  define e where "e = total_seconds now1 t0"
  define gain where "gain = (if ua = Some (answer cq)
       then 10 + (if e < of_int (time_limit cq) / 2 then max 1 (py_trunc (10 - e)) else 0)
       else 0)"
  note run = submit_answer_scored [OF assms(1-8) e_def gain_def assms(9)]
  have b: "(0::int) \<le> max 1 (py_trunc (10 - e))"
    by (rule max.coboundedI1) simp
  have g10: "ua = Some (answer cq) \<Longrightarrow> 10 \<le> gain"
    using b by (simp add: gain_def)
  have g0: "ua \<noteq> Some (answer cq) \<Longrightarrow> gain = 0"
    by (simp add: gain_def)
  from run g10 g0 show ?thesis by auto
qed

text \<open>
  C5. On an active session with a current question, with \<open>e\<close> the seconds between the
  issue of that question and the submission: a correct submission with
  \<open>e < time_limit / 2\<close> adds \<open>10 + max 1 \<lfloor>10 - e\<rfloor>\<close> to the score; a correct one with
  \<open>e \<ge> time_limit / 2\<close>, so also at \<open>e = time_limit / 2\<close>, adds 10 and no bonus; any other
  submission (a wrong answer, the sentinel, or one on which the handler raises before
  scoring) leaves the score as it was. This holds whatever the stored difficulty is and
  whether or not the next question can be generated.
\<close>

theorem submit_answer_time_bonus:
  assumes "session_ok s" and "game_active s = Some True"
    and "current_question s = Some cq"
    and "score s = Some sc" and "question_start_time s = Some t0"
    and "e = total_seconds now1 t0"
    and "parsed = bind_err (py_get data ''answer'' JNone) (parse_answer conv)"
    and "s' = snd (submit_answer conv data now1 now2 rng s)"
  shows "(parsed = Inr (Some (answer cq)) \<and> e < of_int (time_limit cq) / 2 \<longrightarrow>
          score s' = Some (sc + 10 + max 1 \<lfloor>10 - e\<rfloor>))
     \<and> (parsed = Inr (Some (answer cq)) \<and> \<not> e < of_int (time_limit cq) / 2 \<longrightarrow>
          score s' = Some (sc + 10))
     \<and> (parsed = Inr (Some (answer cq)) \<and> e = of_int (time_limit cq) / 2 \<longrightarrow>
          score s' = Some (sc + 10))
     \<and> (parsed \<noteq> Inr (Some (answer cq)) \<longrightarrow> score s' = Some sc)"
proof (cases parsed)
  case (Inl err)
  with assms(7) have "bind_err (py_get data ''answer'' JNone) (parse_answer conv) = Inl err"
    by simp
  from submit_answer_unparsed [OF assms(2,3) this, of now1 now2 rng] assms(8)
  have "s' = s" by simp
  with Inl assms(4) show ?thesis by simp
next
  case (Inr ua)
  with assms(7) have "bind_err (py_get data ''answer'' JNone) (parse_answer conv) = Inr ua"
    by simp
  then obtain raw where raw: "py_get data ''answer'' JNone = Inr raw"
    and ua: "parse_answer conv raw = Inr ua"
    unfolding bind_err_Inr_iff by blast
  from session_ok_playing [OF assms(1-3)] obtain n c where
    tq: "total_questions s = Some n" and ca: "correct_answers s = Some c"
    by blast
  define gain where "gain = (if ua = Some (answer cq)
       then 10 + (if e < of_int (time_limit cq) / 2 then max 1 (py_trunc (10 - e)) else 0)
       else 0)"
  note run = submit_answer_scored [OF assms(2,3) tq ca assms(4,5) raw ua assms(6) gain_def
      assms(8)]
  then have sc': "score s' = Some (sc + gain)" by simp
  have g1: "ua = Some (answer cq) \<Longrightarrow> e < of_int (time_limit cq) / 2 \<Longrightarrow>
      gain = 10 + max 1 \<lfloor>10 - e\<rfloor>"
    by (simp only: gain_def py_trunc_bonus if_True simp_thms)
  have g2: "ua = Some (answer cq) \<Longrightarrow> \<not> e < of_int (time_limit cq) / 2 \<Longrightarrow> gain = 10"
    by (simp add: gain_def)
  have g3: "ua \<noteq> Some (answer cq) \<Longrightarrow> gain = 0"
    by (simp add: gain_def)
  from Inr sc' g1 g2 g3 show ?thesis by auto
qed

theorem submit_answer_time_bonus_witness:
  "session_ok playing_example
   \<and> score (snd (submit_answer (\<lambda>w. None) (JDict [(''answer'', JInt 9)]) 3500000 3500001
        (rng_of [1, 6, 6]) playing_example)) = Some 16
   \<and> score (snd (submit_answer (\<lambda>w. None) (JDict [(''answer'', JInt 9)]) 15000000 15000001
        (rng_of [1, 6, 6]) playing_example)) = Some 10
   \<and> score (snd (submit_answer (\<lambda>w. None) (JDict [(''answer'', JStr ''nine'')]) 3500000
        3500001 (rng_of [1, 6, 6]) playing_example)) = Some 0
   \<and> score (snd (submit_answer (\<lambda>w. None) (JDict [(''answer'', JInt 9)]) 3500000 3500001
        (rng_of [1, 6, 6]) (playing_example\<lparr>difficulty := Some (JStr ''expert'')\<rparr>)))
       = Some 16"
proof -
  have p: "Inr (Some 9) =
      bind_err (py_get (JDict [(''answer'', JInt 9)]) ''answer'' JNone)
        (parse_answer (\<lambda>w. None))"
    "Inr None =
      bind_err (py_get (JDict [(''answer'', JStr ''nine'')]) ''answer'' JNone)
        (parse_answer (\<lambda>w. None))"
    by (simp_all add: parse_answer_def)
  note h = session_ok_playing_example playing_example_fields(1,2,5,6)
  have x: "session_ok (playing_example\<lparr>difficulty := Some (JStr ''expert'')\<rparr>)"
    "game_active (playing_example\<lparr>difficulty := Some (JStr ''expert'')\<rparr>) = Some True"
    "current_question (playing_example\<lparr>difficulty := Some (JStr ''expert'')\<rparr>) =
       Some \<lparr>question = ''4 + 5'', answer = 9, time_limit = 30\<rparr>"
    "score (playing_example\<lparr>difficulty := Some (JStr ''expert'')\<rparr>) = Some 0"
    "question_start_time (playing_example\<lparr>difficulty := Some (JStr ''expert'')\<rparr>) = Some 0"
    by (simp_all add: session_ok_def playing_example_def)
  have e1: "(7 / 2 :: rat) = total_seconds 3500000 0"
    and e2: "(15 :: rat) = total_seconds 15000000 0"
    by (simp_all add: total_seconds_def)
  have f: "\<lfloor>10 - 7 / 2 :: rat\<rfloor> = 6" by (simp add: floor_unique)
  from submit_answer_time_bonus [OF h e1 p(1) refl, of 3500001 "rng_of [1, 6, 6]"]
    submit_answer_time_bonus [OF h e2 p(1) refl, of 15000001 "rng_of [1, 6, 6]"]
    submit_answer_time_bonus [OF h e1 p(2) refl, of 3500001 "rng_of [1, 6, 6]"]
    submit_answer_time_bonus [OF x e1 p(1) refl, of 3500001 "rng_of [1, 6, 6]"]
    f session_ok_playing_example
  show ?thesis by simp
qed

text \<open>
  C6. The \<^verbatim>\<open>try\<close> block catches \<^verbatim>\<open>ValueError\<close> and \<^verbatim>\<open>TypeError\<close> only. A raw answer
  that is the float infinity (the JSON number \<^verbatim>\<open>1e999\<close>) makes \<^verbatim>\<open>int\<close> raise
  \<^verbatim>\<open>OverflowError\<close>, which escapes \<^verbatim>\<open>submit_answer\<close>: the submission is not scored.
\<close>

theorem submit_answer_infinity_escapes:
  "submit_answer conv (JDict [(''answer'', JFloat PosInf)]) now1 now2 rng playing_example =
     (Inl OverflowError, playing_example)"
  by (simp add: submit_answer_def playing_example_def parse_answer_def)

text \<open>
  Every other raw answer that \<^verbatim>\<open>int\<close> rejects becomes the sentinel, which equals no
  integer: the submission is scored as incorrect.
\<close>

lemma parse_answer_cases:
  "parse_answer conv raw = Inl e \<longleftrightarrow>
     (e = OverflowError \<and> (raw = JFloat PosInf \<or> raw = JFloat NegInf))"
proof (cases raw)
  case (JFloat x)
  then show ?thesis by (cases x) (auto simp: parse_answer_def)
qed (auto simp: parse_answer_def split: option.splits)

lemma rejected_answer_is_incorrect:
  assumes "game_active s = Some True" and "current_question s = Some cq"
    and "total_questions s = Some n" and "correct_answers s = Some c"
    and "score s = Some sc" and "question_start_time s = Some t0"
    and "difficulty s = Some d" and "valid_tier d"
    and "py_get data ''answer'' JNone = Inr raw"
    and "py_int conv raw = Inl ValueError \<or> py_int conv raw = Inl TypeError"
  shows "\<exists>r s'. submit_answer conv data now1 now2 rng s = (Inr (Submitted r), s')
     \<and> \<not> is_correct r \<and> score s' = Some sc \<and> correct_answers s' = Some c"
proof -
  from assms(10) have p: "parse_answer conv raw = Inr None"
    by (auto simp: parse_answer_def)
  from assms(8) generate_question_tiers_aux [of d rng]
  obtain nq where nq: "generate_question d rng = Inr nq" by blast
  note run = submit_answer_playing [OF assms(1-7) assms(9) p nq refl refl,
      of now1 now2]
  show ?thesis unfolding run by simp
qed

text \<open>
  C8. On a session that is not active (the flag absent or false) \<^verbatim>\<open>submit_answer\<close> and
  \<^verbatim>\<open>end_game\<close> both return the failure body with the message of no active game; the
  session and the database are left as they were.
\<close>

theorem inactive_session_rejected:
  assumes "game_active s \<noteq> Some True"
  shows "submit_answer conv data now1 now2 rng s = (Inr (Failure ''Nenhum jogo ativo''), s)
     \<and> end_game round_tenth commit now s db = (Inr (Failure ''Nenhum jogo ativo''), s, db)"
  using assms by (simp add: submit_answer_def end_game_def)

theorem inactive_session_rejected_witness:
  "game_active empty_session \<noteq> Some True
   \<and> submit_answer (\<lambda>w. None) (JDict [(''answer'', JInt 9)]) 5 6 (rng_of [1, 6, 6])
        empty_session = (Inr (Failure ''Nenhum jogo ativo''), empty_session)
   \<and> end_game (\<lambda>x. x) append_row 7 empty_session [] =
        (Inr (Failure ''Nenhum jogo ativo''), empty_session, [])
   \<and> game_active (playing_example\<lparr>game_active := Some False\<rparr>) \<noteq> Some True
   \<and> end_game (\<lambda>x. x) append_row 7 (playing_example\<lparr>game_active := Some False\<rparr>) [] =
        (Inr (Failure ''Nenhum jogo ativo''),
         playing_example\<lparr>game_active := Some False\<rparr>, [])"
proof -
  have a: "game_active empty_session \<noteq> Some True"
    by (simp add: empty_session_def)
  have b: "game_active (playing_example\<lparr>game_active := Some False\<rparr>) \<noteq> Some True"
    by simp
  from inactive_session_rejected [OF a, of "\<lambda>w. None" "JDict [(''answer'', JInt 9)]" 5 6
      "rng_of [1, 6, 6]" "\<lambda>x. x" append_row 7 "[]"]
    inactive_session_rejected [OF b, of "\<lambda>w. None" "JDict [(''answer'', JInt 9)]" 5 6
      "rng_of [1, 6, 6]" "\<lambda>x. x" append_row 7 "[]"]
    a b
  show ?thesis by simp
qed

text \<open>
  C9. When \<^verbatim>\<open>end_game\<close> succeeds, the session it leaves is the one it found with
  \<open>game_active\<close> set to false: the difficulty, the score, the counters, the timestamps and
  the current question are unchanged. On that session \<^verbatim>\<open>submit_answer\<close> and
  \<^verbatim>\<open>end_game\<close> change nothing, and a \<^verbatim>\<open>start_game\<close> that returns resets the score and
  the counters to 0.
\<close>

theorem end_game_flips_active_only:
  assumes "end_game round_tenth commit now s db = (Inr (Ended fs), s', db')"
  shows "s' = s\<lparr>game_active := Some False\<rparr>
     \<and> game_active s' = Some False
     \<and> difficulty s' = difficulty s \<and> score s' = score s
     \<and> total_questions s' = total_questions s \<and> correct_answers s' = correct_answers s
     \<and> start_time s' = start_time s \<and> current_question s' = current_question s
     \<and> question_start_time s' = question_start_time s
     \<and> submit_answer conv data now1 now2 rng s' = (Inr (Failure ''Nenhum jogo ativo''), s')
     \<and> end_game round_tenth commit now' s' db' = (Inr (Failure ''Nenhum jogo ativo''), s', db')
     \<and> (start_game data' t1 t2 rng' s' = (Inr r, s'') \<longrightarrow>
          score s'' = Some 0 \<and> total_questions s'' = Some 0 \<and> correct_answers s'' = Some 0)"
proof -
  have eq: "s' = s\<lparr>game_active := Some False\<rparr>"
    by (rule end_game_Ended [OF assms])
  then have off: "game_active s' \<noteq> Some True" by simp
  have st: "start_game data' t1 t2 rng' s' = (Inr r, s'') \<longrightarrow>
      score s'' = Some 0 \<and> total_questions s'' = Some 0 \<and> correct_answers s'' = Some 0"
    using start_game_Inr [of data' t1 t2 rng' s' r s''] by simp
  from eq submit_answer_inactive [OF off, of conv data now1 now2 rng]
    end_game_inactive [OF off, of round_tenth commit now' db'] st
  show ?thesis by simp
qed

theorem end_game_flips_active_only_witness:
  "\<exists>fs. end_game (\<lambda>x. x) append_row 60000000 (playing_example\<lparr>score := Some 16,
        total_questions := Some 1, correct_answers := Some 1\<rparr>) [] =
     (Inr (Ended fs),
       playing_example\<lparr>score := Some 16, total_questions := Some 1,
         correct_answers := Some 1, game_active := Some False\<rparr>,
       [\<lparr>gr_difficulty = JStr ''easy'', gr_score = 16, gr_total_questions = 1,
         gr_correct_answers = 1, gr_accuracy = 100, gr_duration = 60\<rparr>])
     \<and> fs_score fs = 16"
proof -
  define s where "s = playing_example\<lparr>score := Some 16,
        total_questions := Some 1, correct_answers := Some 1\<rparr>"
  have h: "game_active s = Some True" "start_time s = Some 0" "total_questions s = Some 1"
    "correct_answers s = Some 1" "score s = Some 16" "difficulty s = Some (JStr ''easy'')"
    by (simp_all add: s_def playing_example_def)
  have acc: "(100 :: rat) = (if (1::int) > 0 then of_int 1 / of_int 1 * 100 else 0)"
    by simp
  have com: "append_row \<lparr>gr_difficulty = JStr ''easy'', gr_score = 16, gr_total_questions = 1,
         gr_correct_answers = 1, gr_accuracy = 100,
         gr_duration = total_seconds 60000000 0\<rparr> [] =
     Inr [\<lparr>gr_difficulty = JStr ''easy'', gr_score = 16, gr_total_questions = 1,
         gr_correct_answers = 1, gr_accuracy = 100, gr_duration = 60\<rparr>]"
    by (simp add: append_row_def total_seconds_def)
  note run = end_game_playing [where commit = append_row and now = 60000000
      and db = "[]" and accuracy = 100 and round_tenth = "\<lambda>x. x", OF h acc com]
  from end_game_flips_active_only [OF run] run
  show ?thesis unfolding s_def by simp
qed

text \<open>
  C10. A start request whose payload is an object with no \<open>difficulty\<close> key does not
  fail: the difficulty is \<open>easy\<close>, the question comes from the easy settings (time limit
  30), and the session is active with the score and the counters at 0.
\<close>

theorem start_game_defaults_to_easy:
  assumes "map_of kvs ''difficulty'' = None"
  shows "\<exists>q. generate_question (JStr ''easy'') rng = Inr q \<and> time_limit q = 30
     \<and> start_game (JDict kvs) now1 now2 rng s =
         (Inr (Started (question q) 30),
           s\<lparr>game_active := Some True, difficulty := Some (JStr ''easy''),
             score := Some 0, total_questions := Some 0, correct_answers := Some 0,
             start_time := Some now1, current_question := Some q,
             question_start_time := Some now2\<rparr>)"
proof -
  obtain l where l: "generate_locals
      \<lparr>max_number = 10, operations = [''+'', ''-''], st_time_limit = 30\<rparr> rng = Inr l"
    using generate_locals_total [OF settings_for_easy] by blast
  define q where "q = \<lparr>question = text_of l, answer = answer_of l, time_limit = 30\<rparr>"
  have gq: "generate_question (JStr ''easy'') rng = Inr q"
    using generate_question_eq [OF settings_for_easy l] by (simp add: q_def)
  have tl: "time_limit q = 30" by (simp add: q_def)
  have run: "start_game (JDict kvs) now1 now2 rng s =
         (Inr (Started (question q) 30),
           s\<lparr>game_active := Some True, difficulty := Some (JStr ''easy''),
             score := Some 0, total_questions := Some 0, correct_answers := Some 0,
             start_time := Some now1, current_question := Some q,
             question_start_time := Some now2\<rparr>)"
    using assms gq tl by (simp add: start_game_def)
  from gq tl run show ?thesis by blast
qed

theorem start_game_defaults_to_easy_witness:
  "map_of ([] :: (string \<times> json) list) ''difficulty'' = None
   \<and> start_game (JDict []) 0 0 (rng_of [0, 3, 4]) empty_session =
       (Inr (Started ''4 + 5'' 30), playing_example)"
  using start_game_defaults_to_easy [of "[]" "rng_of [0, 3, 4]" 0 0 empty_session]
    easy_addition_run
  by (simp add: empty_session_def playing_example_def)

end
